theory Spec2Isabelle
  imports Complex_Main "HOL-Library.AList"
begin

section \<open>Python values and string helpers\<close>

text \<open>
  A Python \<open>str\<close> is a \<open>string\<close>; one \<open>char\<close> stands for one code point. The helpers
  below are the \<open>str\<close> methods and slices that \<open>xclim/locales/__init__.py\<close> calls.
\<close>

definition startswith :: "string \<Rightarrow> string \<Rightarrow> bool" where
  \<comment> \<open>\<open>s.startswith(p)\<close>\<close>
  "startswith s p = (take (length p) s = p)"

definition endswith :: "string \<Rightarrow> string \<Rightarrow> bool" where
  \<comment> \<open>\<open>s.endswith(p)\<close>\<close>
  "endswith s p = (length p \<le> length s \<and> drop (length s - length p) s = p)"

fun split_on :: "char \<Rightarrow> string \<Rightarrow> string list" where
  \<comment> \<open>\<open>s.split(sep)\<close> for a separator of one character\<close>
  "split_on sep [] = [[]]"
| "split_on sep (c # cs) =
     (if c = sep then [] # split_on sep cs
      else (case split_on sep cs of
              [] \<Rightarrow> [[c]]
            | p # ps \<Rightarrow> (c # p) # ps))"

definition split0 :: "char \<Rightarrow> string \<Rightarrow> string" where
  \<comment> \<open>\<open>s.split(sep)[0]\<close>; the list returned by \<open>split\<close> is never empty\<close>
  "split0 sep s = hd (split_on sep s)"

definition slice_1_m1 :: "string \<Rightarrow> string" where
  \<comment> \<open>\<open>s[1:-1]\<close>: without the first and the last character, empty when \<open>len(s) \<le> 2\<close>\<close>
  "slice_1_m1 s = butlast (tl s)"

section \<open>Locale data, locale specifiers and errors\<close>

text \<open>
  A locale dictionary is the parsed JSON file: the entry \<open>"attrs_mapping"\<close> (absent:
  \<open>None\<close>), and the indicator entries, each a dictionary from attribute names to strings.
\<close>

record locale_dict =
  attrs_mapping :: "(string \<rightharpoonup> string list) option"
  entries :: "string \<rightharpoonup> (string \<rightharpoonup> string)"

text \<open>
  What \<open>set_locales\<close>, \<open>get_local_dict\<close> and \<open>get_local_attrs\<close> take for one locale:
  a language tag, or a pair of a tag and either a translation dictionary or a path.
\<close>

datatype locale_src = Dict locale_dict | Path string

datatype locale_arg = Tag string | TagPair string locale_src

text \<open>
  The exceptions. \<open>UnavailableLocaleError\<close> keeps the argument its constructor was given;
  \<open>None\<close> is Python's \<open>None\<close>. \<open>Unsupported\<close> marks the format-string syntax that the
  model of \<open>str.format\<close> below leaves out.
\<close>

datatype py_error =
    KeyError string
  | IndexError
  | ValueError string
  | AttributeError string
  | OSError string
  | JSONDecodeError
  | UnavailableLocaleError "locale_arg option"
  | Unsupported

text \<open>
  The message of \<open>UnavailableLocaleError.__init__\<close>, for an argument that is \<open>None\<close> or
  a \<open>str\<close> (the two that \<open>get_local_dict\<close> can pass).
\<close>

definition unavailable_message :: "string option \<Rightarrow> string" where
  "unavailable_message locale =
     ''Locale '' @ (case locale of None \<Rightarrow> ''None'' | Some l \<Rightarrow> l)
       @ '' not available. Use `xclim.locales.list_locales()` to see available languages.''"

text \<open>
  The outside world: the package's bundled resources (the directory listing and the
  parsed content of each resource), and the mutable part, the module-level list
  \<open>LOCALES\<close> and the file system. \<open>files w p = None\<close>: \<open>p\<close> is no regular file;
  \<open>Some None\<close>: a file that \<open>json.load\<close> rejects.
\<close>

record package =
  resource_listdir :: "string list"
  resource_json :: "string \<rightharpoonup> locale_dict"

record world =
  LOCALES :: "locale_arg list"
  files :: "string \<rightharpoonup> locale_dict option"

section \<open>Locale resolution\<close>

definition list_locales :: "package \<Rightarrow> string list" where
  "list_locales pkg =
     map (split0 (CHR ''.'')) (filter (\<lambda>locale. endswith locale ''.json'') (resource_listdir pkg))"

definition get_best_locale :: "package \<Rightarrow> string \<Rightarrow> py_error + string option" where
  "get_best_locale pkg locale =
     (let available = list_locales pkg in
      if locale \<in> set available then Inr (Some locale)
      else
        let locale = split0 (CHR ''-'') locale in
        if locale \<in> set available then Inr (Some locale)
        else if locale \<in> set (map (split0 (CHR ''-'')) available) then
          (case filter (\<lambda>av. split0 (CHR ''-'') av = locale) available of
             [] \<Rightarrow> Inl IndexError
           | av # _ \<Rightarrow> Inr (Some av))
        else Inr None)"

definition get_local_dict :: "package \<Rightarrow> world \<Rightarrow> locale_arg \<Rightarrow> py_error + string \<times> locale_dict" where
  \<comment> \<open>In the \<open>str\<close> branch the variable \<open>locale\<close> is reassigned to the result of
      \<open>get_best_locale\<close> before the test, so the error is built from that result.\<close>
  "get_local_dict pkg w locale =
     (case locale of
        Tag tag \<Rightarrow>
          (case get_best_locale pkg tag of
             Inl e \<Rightarrow> Inl e
           | Inr best \<Rightarrow>
               (case best of
                  None \<Rightarrow> Inl (UnavailableLocaleError (map_option Tag best))
                | Some l \<Rightarrow>
                    (case resource_json pkg (l @ ''.json'') of
                       None \<Rightarrow> Inl (OSError (l @ ''.json''))
                     | Some d \<Rightarrow> Inr (l, d))))
      | TagPair tag (Dict d) \<Rightarrow> Inr (tag, d)
      | TagPair tag (Path p) \<Rightarrow>
          (case files w p of
             None \<Rightarrow> Inl (OSError p)
           | Some None \<Rightarrow> Inl JSONDecodeError
           | Some (Some d) \<Rightarrow> Inr (tag, d)))"

section \<open>Translatable strings\<close>

text \<open>
  A keyword or positional argument of \<open>format\<close>: a \<open>str\<close>, or any other object, kept
  as the text that formatting it with an empty format specification gives.
\<close>

datatype pyval = PStr string | PObj string

fun py_str :: "pyval \<Rightarrow> string" where
  "py_str (PStr s) = s"
| "py_str (PObj r) = r"

text \<open>
  \<open>**kwargs\<close> is a \<open>dict\<close>: an association list in insertion order with distinct keys.
  \<open>AList.update\<close> is \<open>d[k] = v\<close>: an existing key keeps its place, a new one goes last.
\<close>

type_synonym kwargs = "(string \<times> pyval) list"

definition dict_update :: "('k \<times> 'v) list \<Rightarrow> ('k \<times> 'v) list \<Rightarrow> ('k \<times> 'v) list" where
  \<comment> \<open>\<open>d.update(other)\<close>\<close>
  "dict_update d other = fold (\<lambda>(k, v). AList.update k v) other d"

text \<open>
  The object's three attributes; \<open>self.translations\<close> is the field \<open>translations_tbl\<close>
  and may be \<open>None\<close>, as \<open>format\<close> tests.
\<close>

record TranslatableStr =
  data :: string
  translations_tbl :: "(string \<rightharpoonup> string list) option"
  modifiers :: "string list"

definition TranslatableStr_init ::
    "string \<Rightarrow> (string \<rightharpoonup> string list) option \<Rightarrow> string list \<Rightarrow> TranslatableStr" where
  "TranslatableStr_init string trs mods =
     \<lparr>data = string, translations_tbl = trs, modifiers = mods\<rparr>"

subsection \<open>The part of \<open>str.format\<close> that the translatable strings use\<close>

text \<open>
  \<open>UserString.format\<close> is \<open>self.data.format(*args, **kwds)\<close>. The model reads the
  format string from left to right as CPython does: \<open>{{\<close> and \<open>}}\<close> are literal braces,
  \<open>{name}\<close> looks a keyword up, \<open>{}\<close> and \<open>{3}\<close> take positional arguments
  (automatic and manual numbering do not mix). Conversions, format specifications,
  attribute and index lookups are left out: a field with one of \<open>! : . [ {\<close> gives
  \<open>Unsupported\<close>.
\<close>

datatype numbering = Unset | Automatic nat | Manual

definition emit :: "string \<Rightarrow> py_error + string \<Rightarrow> py_error + string" where
  "emit s r = (case r of Inl e \<Rightarrow> Inl e | Inr t \<Rightarrow> Inr (s @ t))"

definition is_digit :: "char \<Rightarrow> bool" where
  "is_digit c = (c \<in> set ''0123456789'')"

definition digits_value :: "string \<Rightarrow> nat" where
  "digits_value ds = fold (\<lambda>c n. 10 * n + (of_char c - of_char (CHR ''0''))) ds 0"

definition get_field ::
    "numbering \<Rightarrow> string \<Rightarrow> pyval list \<Rightarrow> kwargs \<Rightarrow> py_error + pyval \<times> numbering" where
  "get_field st name args kw =
     (if name = [] then
        (case st of
           Manual \<Rightarrow>
             Inl (ValueError ''cannot switch from manual field specification to automatic field numbering'')
         | Unset \<Rightarrow> (if 0 < length args then Inr (args ! 0, Automatic 1) else Inl IndexError)
         | Automatic i \<Rightarrow>
             (if i < length args then Inr (args ! i, Automatic (Suc i)) else Inl IndexError))
      else if list_all is_digit name then
        (case st of
           Automatic i \<Rightarrow>
             Inl (ValueError ''cannot switch from automatic field numbering to manual field specification'')
         | _ \<Rightarrow>
             (if digits_value name < length args then Inr (args ! digits_value name, Manual)
              else Inl IndexError))
      else
        (case map_of kw name of
           None \<Rightarrow> Inl (KeyError name)
         | Some v \<Rightarrow> Inr (v, st)))"

fun str_format_from ::
    "numbering \<Rightarrow> string option \<Rightarrow> string \<Rightarrow> pyval list \<Rightarrow> kwargs \<Rightarrow> py_error + string" where
  "str_format_from st None [] args kw = Inr []"
| "str_format_from st (Some field) [] args kw =
     Inl (ValueError ''expected closing brace before end of string'')"
| "str_format_from st None (c # cs) args kw =
     (if c = CHR ''{'' then
        (case cs of
           [] \<Rightarrow> Inl (ValueError ''Single opening brace encountered in format string'')
         | d # ds \<Rightarrow>
             if d = CHR ''{'' then emit [c] (str_format_from st None ds args kw)
             else str_format_from st (Some []) cs args kw)
      else if c = CHR ''}'' then
        (case cs of
           [] \<Rightarrow> Inl (ValueError ''Single closing brace encountered in format string'')
         | d # ds \<Rightarrow>
             if d = CHR ''}'' then emit [c] (str_format_from st None ds args kw)
             else Inl (ValueError ''Single closing brace encountered in format string''))
      else emit [c] (str_format_from st None cs args kw))"
| "str_format_from st (Some field) (c # cs) args kw =
     (if c = CHR ''}'' then
        (case get_field st field args kw of
           Inl e \<Rightarrow> Inl e
         | Inr (v, st') \<Rightarrow> emit (py_str v) (str_format_from st' None cs args kw))
      else if c \<in> set ''{!:.['' then Inl Unsupported
      else str_format_from st (Some (field @ [c])) cs args kw)"

definition str_format :: "string \<Rightarrow> pyval list \<Rightarrow> kwargs \<Rightarrow> py_error + string" where
  "str_format s args kw = str_format_from Unset None s args kw"

subsection \<open>\<open>TranslatableStr.format\<close>\<close>

definition dict_comp :: "string \<Rightarrow> string list \<Rightarrow> string list \<Rightarrow> kwargs" where
  \<comment> \<open>the dictionary comprehension over \<open>zip(self.modifiers, self.translations[val[1:-1]])\<close>\<close>
  "dict_comp key mods vals =
     fold (\<lambda>(modifier, val). AList.update (key @ modifier) (PStr val)) (zip mods vals) []"

definition translate_kwarg ::
    "string list \<Rightarrow> (string \<rightharpoonup> string list) \<Rightarrow> string \<times> pyval \<Rightarrow> kwargs \<Rightarrow> kwargs" where
  \<comment> \<open>one turn of the loop over \<open>kwargs.copy().items()\<close>\<close>
  "translate_kwarg mods trs item kw =
     (case item of
        (key, PStr val) \<Rightarrow>
          (if startswith val ''{'' then
             (case trs (slice_1_m1 val) of
                None \<Rightarrow> kw
              | Some vals \<Rightarrow> dict_update kw (dict_comp key mods vals))
           else kw)
      | (key, PObj r) \<Rightarrow> kw)"

definition format_kwargs :: "TranslatableStr \<Rightarrow> kwargs \<Rightarrow> kwargs" where
  \<comment> \<open>the keyword arguments that \<open>format\<close> hands to \<open>super().format\<close>\<close>
  "format_kwargs ts kw =
     (case translations_tbl ts of
        None \<Rightarrow> kw
      | Some trs \<Rightarrow> fold (translate_kwarg (modifiers ts) trs) kw kw)"

definition format :: "TranslatableStr \<Rightarrow> pyval list \<Rightarrow> kwargs \<Rightarrow> py_error + string" where
  "format ts args kw = str_format (data ts) args (format_kwargs ts kw)"

subsection \<open>What a loop turn of \<open>format\<close> tests and writes\<close>

text \<open>
  \<open>translatable\<close> is the condition of the \<open>if\<close> in \<open>format\<close>; \<open>written\<close> is the
  dictionary that the loop turn for one item hands to \<open>kwargs.update\<close>, empty when the
  condition fails.
\<close>

definition translatable :: "(string \<rightharpoonup> string list) \<Rightarrow> pyval \<Rightarrow> bool" where
  "translatable trs v =
     (case v of
        PStr val \<Rightarrow> startswith val ''{'' \<and> trs (slice_1_m1 val) \<noteq> None
      | PObj r \<Rightarrow> False)"

fun written :: "string list \<Rightarrow> (string \<rightharpoonup> string list) \<Rightarrow> string \<times> pyval \<Rightarrow> kwargs" where
  "written mods trs (key, PStr val) =
     (if startswith val ''{'' then
        (case trs (slice_1_m1 val) of
           None \<Rightarrow> []
         | Some vals \<Rightarrow> dict_comp key mods vals)
      else [])"
| "written mods trs (key, PObj r) = []"

declare written.simps [simp del]

section \<open>Attributes of an indicator in the requested locales\<close>

text \<open>
  What \<open>get_local_attrs\<close> reads of an indicator object: \<open>__module__\<close> (the field
  \<open>ind_module\<close>), \<open>identifier\<close> (\<open>ind_identifier\<close>), and the attributes that
  \<open>getattr\<close> finds (\<open>ind_getattr\<close>; a missing one raises \<open>AttributeError\<close>).
\<close>

record indicator =
  ind_module :: string
  ind_identifier :: string
  ind_getattr :: "string \<rightharpoonup> string"

datatype py_warning = NoAttributesFound string locale_arg

definition TRANSLATABLE_ATTRS :: "string list" where
  "TRANSLATABLE_ATTRS = [''long_name'', ''description'', ''comment'', ''title'']"

definition ind_name_of :: "indicator \<Rightarrow> py_error + string" where
  \<comment> \<open>\<open>f"{indicator.__module__.split('.')[1]}.{indicator.identifier}"\<close>\<close>
  "ind_name_of ind =
     (case split_on (CHR ''.'') (ind_module ind) of
        _ # part # _ \<Rightarrow> Inr (part @ ''.'' @ ind_identifier ind)
      | _ \<Rightarrow> Inl IndexError)"

type_synonym local_attrs = "(string \<times> TranslatableStr) list"

fun translate_attrs ::
    "indicator \<Rightarrow> string list option \<Rightarrow> bool \<Rightarrow> string \<Rightarrow> locale_dict \<Rightarrow> (string \<rightharpoonup> string) \<Rightarrow>
     string list \<Rightarrow> local_attrs \<Rightarrow> py_error + local_attrs" where
  \<comment> \<open>the loop \<open>for name in TRANSLATABLE_ATTRS\<close>\<close>
  "translate_attrs ind names fill_missing loc_name loc_dict local [] attrs = Inr attrs"
| "translate_attrs ind names fill_missing loc_name loc_dict local (name # rest) attrs =
     (if (case names of None \<Rightarrow> True | Some ns \<Rightarrow> name \<in> set ns)
         \<and> (fill_missing \<or> local name \<noteq> None) then
        (case attrs_mapping loc_dict of
           None \<Rightarrow> Inl (KeyError ''attrs_mapping'')
         | Some am \<Rightarrow>
             (let ind_dict = am(''modifiers'' := None);
                  mods = (case am ''modifiers'' of None \<Rightarrow> [[]] | Some m \<Rightarrow> m)
              in case ind_getattr ind name of
                   None \<Rightarrow> Inl (AttributeError name)
                 | Some dflt \<Rightarrow>
                     translate_attrs ind names fill_missing loc_name loc_dict local rest
                       (AList.update (name @ loc_name)
                          (TranslatableStr_init (case local name of None \<Rightarrow> dflt | Some t \<Rightarrow> t)
                             (Some ind_dict) mods)
                          attrs)))
      else translate_attrs ind names fill_missing loc_name loc_dict local rest attrs)"

fun locales_loop ::
    "package \<Rightarrow> world \<Rightarrow> indicator \<Rightarrow> string list option \<Rightarrow> bool \<Rightarrow> bool \<Rightarrow>
     locale_arg list \<Rightarrow> local_attrs \<Rightarrow> py_warning list \<Rightarrow> (py_error + local_attrs) \<times> py_warning list" where
  \<comment> \<open>the loop \<open>for locale in locales\<close>, with the warnings emitted so far\<close>
  "locales_loop pkg w ind names fill_missing append_locale_name [] attrs warned = (Inr attrs, warned)"
| "locales_loop pkg w ind names fill_missing append_locale_name (locale # rest) attrs warned =
     (case get_local_dict pkg w locale of
        Inl e \<Rightarrow> (Inl e, warned)
      | Inr (loc_name, loc_dict) \<Rightarrow>
          (let loc_name = (if append_locale_name then ''_'' @ loc_name else [])
           in case ind_name_of ind of
                Inl e \<Rightarrow> (Inl e, warned)
              | Inr ind_name \<Rightarrow>
                  (case entries loc_dict ind_name of
                     None \<Rightarrow>
                       locales_loop pkg w ind names fill_missing append_locale_name rest attrs
                         (warned @ [NoAttributesFound ind_name locale])
                   | Some local \<Rightarrow>
                       (case translate_attrs ind names fill_missing loc_name loc_dict local
                               TRANSLATABLE_ATTRS attrs of
                          Inl e \<Rightarrow> (Inl e, warned)
                        | Inr attrs' \<Rightarrow>
                            locales_loop pkg w ind names fill_missing append_locale_name rest
                              attrs' warned))))"

definition get_local_attrs ::
    "package \<Rightarrow> world \<Rightarrow> indicator \<Rightarrow> locale_arg list \<Rightarrow> string list option \<Rightarrow> bool \<Rightarrow> bool \<Rightarrow>
     (py_error + local_attrs) \<times> py_warning list" where
  "get_local_attrs pkg w ind locales names fill_missing append_locale_name =
     (let locales = (if locales = [] then LOCALES w else locales) in
      if \<not> append_locale_name \<and> length locales > 1 then
        (Inl (ValueError ''`append_locale_name` cannot be False if multiple locales are requested.''), [])
      else locales_loop pkg w ind names fill_missing append_locale_name locales [] [])"

section \<open>The active locales\<close>

definition unavailable :: "package \<Rightarrow> world \<Rightarrow> locale_arg \<Rightarrow> py_error + bool" where
  \<comment> \<open>the condition of the \<open>if\<close> in \<open>set_locales\<close>\<close>
  "unavailable pkg w locale =
     (case locale of
        Tag tag \<Rightarrow>
          (case get_best_locale pkg tag of
             Inl e \<Rightarrow> Inl e
           | Inr best \<Rightarrow> Inr (best = None))
      | TagPair tag (Path p) \<Rightarrow> Inr (files w p = None)
      | TagPair tag (Dict d) \<Rightarrow> Inr False)"

fun check_locales :: "package \<Rightarrow> world \<Rightarrow> locale_arg list \<Rightarrow> py_error option" where
  \<comment> \<open>the validation loop of \<open>set_locales\<close>: the exception it raises, if any\<close>
  "check_locales pkg w [] = None"
| "check_locales pkg w (locale # rest) =
     (case unavailable pkg w locale of
        Inl e \<Rightarrow> Some e
      | Inr bad \<Rightarrow>
          if bad then Some (UnavailableLocaleError (Some locale))
          else check_locales pkg w rest)"

definition set_locales :: "package \<Rightarrow> locale_arg list \<Rightarrow> world \<Rightarrow> (py_error + unit) \<times> world" where
  "set_locales pkg locales w =
     (case check_locales pkg w locales of
        Some e \<Rightarrow> (Inl e, w)
      | None \<Rightarrow> (Inr (), w\<lparr>LOCALES := locales\<rparr>))"

text \<open>
  The context manager \<open>metadata_locale\<close>. \<open>__enter__\<close> stores \<open>old_locales\<close> in the
  object (here: returns it); \<open>__exit__\<close> returns \<open>None\<close>, so an exception of the block
  propagates after it. \<open>with_metadata_locale\<close> is the \<open>with\<close> statement around a block
  \<open>body\<close> that may change the world and may raise.
\<close>

definition metadata_locale_enter ::
    "package \<Rightarrow> locale_arg list \<Rightarrow> world \<Rightarrow> (py_error + locale_arg list) \<times> world" where
  "metadata_locale_enter pkg locales w =
     (let old_locales = LOCALES w in
      case set_locales pkg locales w of
        (Inl e, w') \<Rightarrow> (Inl e, w')
      | (Inr _, w') \<Rightarrow> (Inr old_locales, w'))"

definition metadata_locale_exit ::
    "package \<Rightarrow> locale_arg list \<Rightarrow> world \<Rightarrow> (py_error + unit) \<times> world" where
  "metadata_locale_exit pkg old_locales w = set_locales pkg old_locales w"

definition with_metadata_locale ::
    "package \<Rightarrow> locale_arg list \<Rightarrow> (world \<Rightarrow> (py_error + 'a) \<times> world) \<Rightarrow> world \<Rightarrow>
     (py_error + 'a) \<times> world" where
  "with_metadata_locale pkg locales body w =
     (case metadata_locale_enter pkg locales w of
        (Inl e, w1) \<Rightarrow> (Inl e, w1)
      | (Inr old_locales, w1) \<Rightarrow>
          (case body w1 of
             (r, w2) \<Rightarrow>
               (case metadata_locale_exit pkg old_locales w2 of
                  (Inl e, w3) \<Rightarrow> (Inl e, w3)
                | (Inr _, w3) \<Rightarrow> (r, w3))))"

section \<open>Indicator reductions\<close>

text \<open>
  Modelled from the spec: \<open>xclim.temperature.growing_degree_days\<close>, which the test
  \<open>TestGrowingDegreeDays\<close> calls, is not among the sources. The spec gives it as: over one
  resample period, compare each value with the threshold by strict \<open>>\<close>, sum the excess
  of the values above it, and give NaN when the period holds a NaN. Values are exact
  reals here; \<open>None\<close> is NaN.
\<close>

definition growing_degree_days :: "real \<Rightarrow> real option list \<Rightarrow> real option" where
  "growing_degree_days thresh period =
     (case those period of
        None \<Rightarrow> None
      | Some xs \<Rightarrow> Some (sum_list (map (\<lambda>x. x - thresh) (filter (\<lambda>x. x > thresh) xs))))"

section \<open>Predicates of the claims and example data\<close>

text \<open>
  An entry that \<open>set_locales\<close> must refuse: a plain tag that does not resolve, or a pair
  of a tag and a path that is no existing file.
\<close>

definition invalid_entry :: "package \<Rightarrow> world \<Rightarrow> locale_arg \<Rightarrow> bool" where
  "invalid_entry pkg w locale =
     (case locale of
        Tag tag \<Rightarrow> get_best_locale pkg tag = Inr None
      | TagPair tag (Path p) \<Rightarrow> files w p = None
      | TagPair tag (Dict d) \<Rightarrow> False)"

text \<open>
  The TranslatableStr_invariant that the spec gives for a translatable string, and the same alignment
  read on the \<open>"attrs_mapping"\<close> of a locale dictionary. \<open>built_from\<close>: the string carries
  the modifiers and the table of this locale dictionary, as \<open>get_local_attrs\<close> builds it.
\<close>

definition TranslatableStr_invariant :: "TranslatableStr \<Rightarrow> bool" where
  "TranslatableStr_invariant ts =
     (\<forall>trs k vals. translations_tbl ts = Some trs \<and> trs k = Some vals \<longrightarrow>
        length (modifiers ts) = length vals)"

definition attrs_mapping_aligned :: "(string \<rightharpoonup> string list) \<Rightarrow> bool" where
  "attrs_mapping_aligned am =
     (\<forall>k vals. k \<noteq> ''modifiers'' \<and> am k = Some vals \<longrightarrow>
        length vals = length (case am ''modifiers'' of None \<Rightarrow> [[]] | Some m \<Rightarrow> m))"

definition built_from :: "locale_dict \<Rightarrow> TranslatableStr \<Rightarrow> bool" where
  "built_from loc_dict ts =
     (\<exists>am. attrs_mapping loc_dict = Some am \<and>
           translations_tbl ts = Some (am(''modifiers'' := None)) \<and>
           modifiers ts = (case am ''modifiers'' of None \<Rightarrow> [[]] | Some m \<Rightarrow> m))"

text \<open>
  The locales of the docstring of \<open>get_best_locale\<close> (\<open>['fr', 'fr-BE', 'en-US']\<close>) as a
  package directory, a world where \<open>fr\<close> is active, an indicator, and the translatable
  string of the formatting scenario.
\<close>

definition example_pkg :: package where
  "example_pkg =
     \<lparr>resource_listdir = [''__init__.py'', ''fr.json'', ''fr-BE.json'', ''en-US.json''],
      resource_json = Map.empty\<rparr>"

definition example_world :: world where
  "example_world = \<lparr>LOCALES = [Tag ''fr''], files = Map.empty\<rparr>"

definition example_indicator :: indicator where
  "example_indicator =
     \<lparr>ind_module = ''xclim.atmos._temperature'', ind_identifier = ''dtrvar'',
      ind_getattr = [''long_name'' \<mapsto> ''Mean diurnal temperature range variability'']\<rparr>"

definition example_str :: TranslatableStr where
  "example_str =
     TranslatableStr_init ''X is {a_m}'' (Some [''nice'' \<mapsto> [''beau'', ''belle'']]) [''_m'', ''_f'']"

text \<open>
  Further example data: a table with an entry shorter than the modifiers (which are as
  long as the longest entry, as the docstring of the constructor asks), the French
  modifiers of the module docstring with an empty modifier, a world whose active locale
  does not resolve, a world whose active locale comes from a file, and the corresponding
  locale dictionaries and translatable strings.
\<close>

definition short_str :: TranslatableStr where
  "short_str =
     TranslatableStr_init ''X is {a_m}''
       (Some [''nice'' \<mapsto> [''beau'', ''belle''], ''calm'' \<mapsto> [''calme'']]) [''_m'', ''_f'']"

definition french_str :: TranslatableStr where
  "french_str =
     TranslatableStr_init ''{freq} / {freq_f}'' (Some [''YS'' \<mapsto> [''annuel'', ''annuelle'']]) ['''', ''_f'']"

definition stale_world :: world where
  "stale_world = \<lparr>LOCALES = [Tag ''de''], files = Map.empty\<rparr>"

definition file_world :: world where
  "file_world =
     \<lparr>LOCALES = [TagPair ''fr'' (Path ''my_fr.json'')],
      files = [''my_fr.json'' \<mapsto> Some \<lparr>attrs_mapping = Some Map.empty, entries = Map.empty\<rparr>]\<rparr>"

definition short_dict :: locale_dict where
  "short_dict =
     \<lparr>attrs_mapping = Some [''modifiers'' \<mapsto> ['''', ''_f''], ''MS'' \<mapsto> [''mensuel'', ''mensuelle''],
                ''YS'' \<mapsto> [''annuel'']],
      entries = [''atmos.dtrvar'' \<mapsto> [''long_name'' \<mapsto> ''Variabilite'']]\<rparr>"

definition french_dict :: locale_dict where
  "french_dict =
     \<lparr>attrs_mapping = Some [''modifiers'' \<mapsto> ['''', ''_f''], ''YS'' \<mapsto> [''annuel'', ''annuelle'']],
      entries = [''atmos.dtrvar'' \<mapsto> [''long_name'' \<mapsto> ''Variabilite'']]\<rparr>"

definition short_ts :: TranslatableStr where
  "short_ts =
     TranslatableStr_init ''Variabilite''
       (Some ([''modifiers'' \<mapsto> ['''', ''_f''], ''MS'' \<mapsto> [''mensuel'', ''mensuelle''],
               ''YS'' \<mapsto> [''annuel'']](''modifiers'' := None)))
       ['''', ''_f'']"

definition french_ts :: TranslatableStr where
  "french_ts =
     TranslatableStr_init ''Variabilite''
       (Some ([''modifiers'' \<mapsto> ['''', ''_f''], ''YS'' \<mapsto> [''annuel'', ''annuelle'']](''modifiers'' := None)))
       ['''', ''_f'']"

section \<open>Helper lemmas\<close>

lemma split_on_nonempty: "split_on sep s \<noteq> []"
  by (induction s) (auto split: list.splits)

lemma split0_takeWhile: "split0 sep s = takeWhile (\<lambda>c. c \<noteq> sep) s"
  unfolding split0_def
  using split_on_nonempty [of sep]
  by (induction s) (auto split: list.splits)

lemma list_locales_example: "list_locales example_pkg = [''fr'', ''fr-BE'', ''en-US'']"
  by (simp add: example_pkg_def list_locales_def endswith_def split0_def)

text \<open>The \<open>[0]\<close> of \<open>get_best_locale\<close> is guarded by the membership test before it.\<close>

lemma get_best_locale_no_raise: "get_best_locale pkg locale \<noteq> Inl e"
proof -
  have "filter P xs \<noteq> []" if "y \<in> set xs" "P y" for P :: "string \<Rightarrow> bool" and xs y
    using that by (auto simp: filter_empty_conv)
  then show ?thesis
    by (auto simp: get_best_locale_def Let_def split: list.splits)
qed

lemma get_best_locale_de: "get_best_locale example_pkg ''de'' = Inr None"
  by (simp add: get_best_locale_def list_locales_example split0_def)

lemma unavailable_invalid: "unavailable pkg w l = Inr (invalid_entry pkg w l)"
  using get_best_locale_no_raise [of pkg]
  by (cases l) (auto simp: unavailable_def invalid_entry_def split: sum.splits locale_src.splits)

lemma check_locales_first:
  assumes "\<forall>x\<in>set pre. \<not> invalid_entry pkg w x" "invalid_entry pkg w l"
  shows "check_locales pkg w (pre @ l # post) = Some (UnavailableLocaleError (Some l))"
  using assms by (induction pre) (simp_all add: unavailable_invalid)

lemma check_locales_None:
  "check_locales pkg w ls = None \<longleftrightarrow> (\<forall>x\<in>set ls. \<not> invalid_entry pkg w x)"
  by (induction ls) (simp_all add: unavailable_invalid)

lemmas format_defs = format_def format_kwargs_def translate_kwarg_def TranslatableStr_init_def
  startswith_def slice_1_m1_def dict_update_def dict_comp_def str_format_def get_field_def
  is_digit_def emit_def

section \<open>Locale resolution\<close>

text \<open>
  C6. \<open>get_best_locale\<close> returns the requested tag when it is available; otherwise the
  tag without its region when that is available; otherwise the first available locale,
  in the order of the listing, whose own prefix is the prefix of the request; and
  \<open>None\<close> when none of the three matches. It never raises.
\<close>

theorem get_best_locale_cases:
  "(locale \<in> set (list_locales pkg) \<longrightarrow> get_best_locale pkg locale = Inr (Some locale)) \<and>
   (locale \<notin> set (list_locales pkg) \<and> split0 (CHR ''-'') locale \<in> set (list_locales pkg) \<longrightarrow>
      get_best_locale pkg locale = Inr (Some (split0 (CHR ''-'') locale))) \<and>
   (locale \<notin> set (list_locales pkg) \<and> split0 (CHR ''-'') locale \<notin> set (list_locales pkg) \<longrightarrow>
      (\<forall>pre av post.
         list_locales pkg = pre @ av # post \<and>
         split0 (CHR ''-'') av = split0 (CHR ''-'') locale \<and>
         (\<forall>x\<in>set pre. split0 (CHR ''-'') x \<noteq> split0 (CHR ''-'') locale) \<longrightarrow>
         get_best_locale pkg locale = Inr (Some av))) \<and>
   (locale \<notin> set (list_locales pkg) \<and> split0 (CHR ''-'') locale \<notin> set (list_locales pkg) \<and>
    (\<forall>av\<in>set (list_locales pkg). split0 (CHR ''-'') av \<noteq> split0 (CHR ''-'') locale) \<longrightarrow>
      get_best_locale pkg locale = Inr None)"
proof (intro conjI impI allI)
  assume "locale \<in> set (list_locales pkg)"
  then show "get_best_locale pkg locale = Inr (Some locale)"
    by (simp add: get_best_locale_def)
next
  assume "locale \<notin> set (list_locales pkg) \<and> split0 (CHR ''-'') locale \<in> set (list_locales pkg)"
  then show "get_best_locale pkg locale = Inr (Some (split0 (CHR ''-'') locale))"
    by (simp add: get_best_locale_def Let_def)
next
  fix pre av post
  assume a: "locale \<notin> set (list_locales pkg) \<and> split0 (CHR ''-'') locale \<notin> set (list_locales pkg)"
    and b: "list_locales pkg = pre @ av # post \<and>
         split0 (CHR ''-'') av = split0 (CHR ''-'') locale \<and>
         (\<forall>x\<in>set pre. split0 (CHR ''-'') x \<noteq> split0 (CHR ''-'') locale)"
  from b have f: "filter (\<lambda>x. split0 (CHR ''-'') x = split0 (CHR ''-'') locale) (list_locales pkg)
      = av # filter (\<lambda>x. split0 (CHR ''-'') x = split0 (CHR ''-'') locale) post"
    by simp
  from b have m: "split0 (CHR ''-'') locale \<in> set (map (split0 (CHR ''-'')) (list_locales pkg))"
    by (metis image_eqI in_set_conv_decomp list.set_map)
  show "get_best_locale pkg locale = Inr (Some av)"
    using a f m by (simp add: get_best_locale_def Let_def)
next
  assume "locale \<notin> set (list_locales pkg) \<and> split0 (CHR ''-'') locale \<notin> set (list_locales pkg) \<and>
    (\<forall>av\<in>set (list_locales pkg). split0 (CHR ''-'') av \<noteq> split0 (CHR ''-'') locale)"
  then show "get_best_locale pkg locale = Inr None"
    by (auto simp add: get_best_locale_def Let_def)
qed

text \<open>
  The four cases on the docstring's locales: \<open>fr-BE\<close> is available, \<open>fr-CA\<close> falls back
  to \<open>fr\<close>, \<open>en-GB\<close> to the first \<open>en\<close> locale, and \<open>de\<close> has no match.
\<close>

theorem get_best_locale_cases_witness:
  "(''fr-BE'' \<in> set (list_locales example_pkg) \<and>
      get_best_locale example_pkg ''fr-BE'' = Inr (Some ''fr-BE'')) \<and>
   (''fr-CA'' \<notin> set (list_locales example_pkg) \<and>
      split0 (CHR ''-'') ''fr-CA'' \<in> set (list_locales example_pkg) \<and>
      get_best_locale example_pkg ''fr-CA'' = Inr (Some ''fr'')) \<and>
   (''en-GB'' \<notin> set (list_locales example_pkg) \<and>
      split0 (CHR ''-'') ''en-GB'' \<notin> set (list_locales example_pkg) \<and>
      list_locales example_pkg = [''fr'', ''fr-BE''] @ ''en-US'' # [] \<and>
      split0 (CHR ''-'') ''en-US'' = split0 (CHR ''-'') ''en-GB'' \<and>
      split0 (CHR ''-'') ''fr'' \<noteq> split0 (CHR ''-'') ''en-GB'' \<and>
      split0 (CHR ''-'') ''fr-BE'' \<noteq> split0 (CHR ''-'') ''en-GB'' \<and>
      get_best_locale example_pkg ''en-GB'' = Inr (Some ''en-US'')) \<and>
   (''de'' \<notin> set (list_locales example_pkg) \<and>
      split0 (CHR ''-'') ''de'' \<notin> set (list_locales example_pkg) \<and>
      list_locales example_pkg = [''fr'', ''fr-BE'', ''en-US''] \<and>
      split0 (CHR ''-'') ''fr'' \<noteq> split0 (CHR ''-'') ''de'' \<and>
      split0 (CHR ''-'') ''fr-BE'' \<noteq> split0 (CHR ''-'') ''de'' \<and>
      split0 (CHR ''-'') ''en-US'' \<noteq> split0 (CHR ''-'') ''de'' \<and>
      get_best_locale example_pkg ''de'' = Inr None)"
proof -
  note l = list_locales_example
  have h1: "''fr-BE'' \<in> set (list_locales example_pkg)"
    by (simp add: l)
  have h2: "''fr-CA'' \<notin> set (list_locales example_pkg) \<and>
      split0 (CHR ''-'') ''fr-CA'' \<in> set (list_locales example_pkg)"
    by (simp add: l split0_def)
  have s2: "split0 (CHR ''-'') ''fr-CA'' = ''fr''"
    by (simp add: split0_def)
  have h3: "''en-GB'' \<notin> set (list_locales example_pkg) \<and>
      split0 (CHR ''-'') ''en-GB'' \<notin> set (list_locales example_pkg)"
    by (simp add: l split0_def)
  have h3': "list_locales example_pkg = [''fr'', ''fr-BE''] @ ''en-US'' # [] \<and>
      split0 (CHR ''-'') ''en-US'' = split0 (CHR ''-'') ''en-GB'' \<and>
      split0 (CHR ''-'') ''fr'' \<noteq> split0 (CHR ''-'') ''en-GB'' \<and>
      split0 (CHR ''-'') ''fr-BE'' \<noteq> split0 (CHR ''-'') ''en-GB''"
    by (simp add: l split0_def)
  then have b3: "\<forall>x\<in>set [''fr'', ''fr-BE'']. split0 (CHR ''-'') x \<noteq> split0 (CHR ''-'') ''en-GB''"
    by simp
  have h4: "''de'' \<notin> set (list_locales example_pkg) \<and>
      split0 (CHR ''-'') ''de'' \<notin> set (list_locales example_pkg)"
    by (simp add: l split0_def)
  have h4': "split0 (CHR ''-'') ''fr'' \<noteq> split0 (CHR ''-'') ''de'' \<and>
      split0 (CHR ''-'') ''fr-BE'' \<noteq> split0 (CHR ''-'') ''de'' \<and>
      split0 (CHR ''-'') ''en-US'' \<noteq> split0 (CHR ''-'') ''de''"
    by (simp add: split0_def)
  then have b4: "\<forall>av\<in>set (list_locales example_pkg). split0 (CHR ''-'') av \<noteq> split0 (CHR ''-'') ''de''"
    by (simp add: l)
  have c1: "get_best_locale example_pkg ''fr-BE'' = Inr (Some ''fr-BE'')"
    using get_best_locale_cases [of "''fr-BE''" example_pkg] h1 by blast
  have c2: "get_best_locale example_pkg ''fr-CA'' = Inr (Some ''fr'')"
    using get_best_locale_cases [of "''fr-CA''" example_pkg] h2 s2 by metis
  have c3: "get_best_locale example_pkg ''en-GB'' = Inr (Some ''en-US'')"
    using get_best_locale_cases [of "''en-GB''" example_pkg] h3 h3' b3 by blast
  have c4: "get_best_locale example_pkg ''de'' = Inr None"
    using get_best_locale_cases [of "''de''" example_pkg] h4 b4 by blast
  show ?thesis
    using h1 h2 h3 h3' h4 h4' l c1 c2 c3 c4 by blast
qed

text \<open>
  C10. For a plain tag that \<open>get_best_locale\<close> cannot resolve, \<open>get_local_dict\<close> raises
  \<open>UnavailableLocaleError\<close>, built from \<open>None\<close> and not from the requested tag: the
  variable holding the tag was overwritten with the result of the resolution. The message
  therefore reads "Locale None not available".
\<close>

theorem get_local_dict_error_names_None:
  assumes "get_best_locale pkg tag = Inr None"
  shows "get_local_dict pkg w (Tag tag) = Inl (UnavailableLocaleError None) \<and>
         UnavailableLocaleError None \<noteq> UnavailableLocaleError (Some (Tag tag)) \<and>
         unavailable_message None =
           ''Locale None not available. Use `xclim.locales.list_locales()` to see available languages.''"
  using assms by (simp add: get_local_dict_def unavailable_message_def)

theorem get_local_dict_error_names_None_witness:
  "get_best_locale example_pkg ''de'' = Inr None \<and>
   get_local_dict example_pkg example_world (Tag ''de'') = Inl (UnavailableLocaleError None)"
  using get_local_dict_error_names_None [OF get_best_locale_de, of example_world] get_best_locale_de
  by simp

section \<open>The active locales\<close>

text \<open>
  C4. When the argument list of \<open>set_locales\<close> holds an invalid entry, the call raises
  \<open>UnavailableLocaleError\<close> built from the first invalid entry (every entry before it is
  valid), and the world, \<open>LOCALES\<close> included, is what it was before the call.
\<close>

theorem set_locales_all_or_nothing:
  assumes "\<exists>l\<in>set locales. invalid_entry pkg w l"
  shows "\<exists>pre l post. locales = pre @ l # post \<and> (\<forall>x\<in>set pre. \<not> invalid_entry pkg w x) \<and>
           invalid_entry pkg w l \<and>
           set_locales pkg locales w = (Inl (UnavailableLocaleError (Some l)), w)"
proof -
  from assms obtain pre l post where d: "locales = pre @ l # post"
      "invalid_entry pkg w l" "\<forall>x\<in>set pre. \<not> invalid_entry pkg w x"
    using split_list_first_prop [of locales "invalid_entry pkg w"] by blast
  then have "set_locales pkg locales w = (Inl (UnavailableLocaleError (Some l)), w)"
    by (simp add: set_locales_def check_locales_first)
  with d show ?thesis by blast
qed

text \<open>
  With \<open>fr-CA\<close> valid and both \<open>de\<close> and the path invalid, the error names \<open>de\<close>.
\<close>

theorem set_locales_all_or_nothing_witness:
  "\<not> invalid_entry example_pkg example_world (Tag ''fr-CA'') \<and>
   invalid_entry example_pkg example_world (Tag ''de'') \<and>
   invalid_entry example_pkg example_world (TagPair ''xx'' (Path ''nowhere.json'')) \<and>
   set_locales example_pkg [Tag ''fr-CA'', Tag ''de'', TagPair ''xx'' (Path ''nowhere.json'')] example_world
     = (Inl (UnavailableLocaleError (Some (Tag ''de''))), example_world)"
proof -
  have h: "\<exists>l\<in>set [Tag ''fr-CA'', Tag ''de'', TagPair ''xx'' (Path ''nowhere.json'')].
      invalid_entry example_pkg example_world l"
    by (simp add: invalid_entry_def get_best_locale_de)
  have v: "\<not> invalid_entry example_pkg example_world (Tag ''fr-CA'')"
    by (simp add: invalid_entry_def get_best_locale_def list_locales_example split0_def)
  from set_locales_all_or_nothing [OF h] obtain pre l post where
    d: "[Tag ''fr-CA'', Tag ''de'', TagPair ''xx'' (Path ''nowhere.json'')] = pre @ l # post"
       "\<forall>x\<in>set pre. \<not> invalid_entry example_pkg example_world x"
       "invalid_entry example_pkg example_world l"
       "set_locales example_pkg [Tag ''fr-CA'', Tag ''de'', TagPair ''xx'' (Path ''nowhere.json'')] example_world
         = (Inl (UnavailableLocaleError (Some l)), example_world)"
    by blast
  have "l = Tag ''de''"
  proof (cases pre)
    case Nil
    with d(1,3) v show ?thesis by simp
  next
    case (Cons a pre')
    note c1 = this
    show ?thesis
    proof (cases pre')
      case Nil
      with c1 d(1) show ?thesis by simp
    next
      case (Cons b pre'')
      with c1 d(1) have "b = Tag ''de''" by simp
      with Cons c1 d(2) have False by (simp add: invalid_entry_def get_best_locale_de)
      then show ?thesis ..
    qed
  qed
  moreover have "invalid_entry example_pkg example_world (Tag ''de'')"
    by (simp add: invalid_entry_def get_best_locale_de)
  moreover have "invalid_entry example_pkg example_world (TagPair ''xx'' (Path ''nowhere.json''))"
    by (simp add: invalid_entry_def example_world_def)
  ultimately show ?thesis using d(4) v by simp
qed

section \<open>Attributes of an indicator\<close>

text \<open>
  C7. With \<open>append_locale_name=False\<close> and more than one locale, given in the call or
  taken from \<open>LOCALES\<close>, \<open>get_local_attrs\<close> raises \<open>ValueError\<close> whatever the package
  and the file system hold and without a warning: no locale has been resolved or loaded.
\<close>

theorem get_local_attrs_rejects_several_locales:
  "(1 < length locales \<longrightarrow>
      get_local_attrs pkg w ind locales names fill_missing False =
        (Inl (ValueError ''`append_locale_name` cannot be False if multiple locales are requested.''), [])) \<and>
   (1 < length (LOCALES w) \<longrightarrow>
      get_local_attrs pkg w ind [] names fill_missing False =
        (Inl (ValueError ''`append_locale_name` cannot be False if multiple locales are requested.''), []))"
  by (auto simp add: get_local_attrs_def)

text \<open>
  Two locales that do not resolve: with \<open>append_locale_name=True\<close> the call reaches the
  resolution and fails there; with \<open>False\<close> it fails before, with \<open>ValueError\<close>.
\<close>

theorem get_local_attrs_rejects_several_locales_witness:
  "1 < length [Tag ''de'', Tag ''xx''] \<and>
   get_local_attrs example_pkg example_world example_indicator [Tag ''de'', Tag ''xx''] None True False =
     (Inl (ValueError ''`append_locale_name` cannot be False if multiple locales are requested.''), []) \<and>
   get_local_attrs example_pkg example_world example_indicator [Tag ''de'', Tag ''xx''] None True True =
     (Inl (UnavailableLocaleError None), []) \<and>
   1 < length (LOCALES (example_world\<lparr>LOCALES := [Tag ''de'', Tag ''xx'']\<rparr>)) \<and>
   get_local_attrs example_pkg (example_world\<lparr>LOCALES := [Tag ''de'', Tag ''xx'']\<rparr>)
       example_indicator [] None True False =
     (Inl (ValueError ''`append_locale_name` cannot be False if multiple locales are requested.''), [])"
proof -
  have a: "1 < length [Tag ''de'', Tag ''xx'']" by simp
  have b: "1 < length (LOCALES (example_world\<lparr>LOCALES := [Tag ''de'', Tag ''xx'']\<rparr>))" by simp
  have c: "get_local_attrs example_pkg example_world example_indicator [Tag ''de'', Tag ''xx''] None True True =
     (Inl (UnavailableLocaleError None), [])"
    by (simp add: get_local_attrs_def get_local_dict_def get_best_locale_de)
  show ?thesis
    using a b c
      get_local_attrs_rejects_several_locales
        [of "[Tag ''de'', Tag ''xx'']" example_pkg example_world example_indicator None True]
      get_local_attrs_rejects_several_locales
        [of "[Tag ''de'', Tag ''xx'']" example_pkg "example_world\<lparr>LOCALES := [Tag ''de'', Tag ''xx'']\<rparr>"
           example_indicator None True]
    by blast
qed

section \<open>Translatable strings\<close>

text \<open>
  C2. With translations \<open>{"nice": ["beau", "belle"]}\<close>, modifiers \<open>["_m", "_f"]\<close> and the
  string \<open>"X is {a_m}"\<close>, \<open>format(a="{nice}")\<close> returns \<open>"X is beau"\<close>. With
  \<open>a="nice"\<close> nothing is expanded, so no keyword \<open>a_m\<close> reaches \<open>str.format\<close> and the
  call raises \<open>KeyError\<close>; it does not return \<open>"X is nice"\<close>.
\<close>

theorem format_untranslated_raises:
  "format example_str [] [(''a'', PStr ''{nice}'')] = Inr ''X is beau'' \<and>
   format example_str [] [(''a'', PStr ''nice'')] = Inl (KeyError ''a_m'')"
  by (simp add: example_str_def format_defs)

section \<open>Indicator reductions\<close>

text \<open>
  The reduction on a period without NaN, and the NaN policy.
\<close>

lemma those_map_Some: "those (map Some xs) = Some xs"
  by (induction xs) simp_all

lemma those_None: "None \<in> set period \<Longrightarrow> those period = None"
  by (induction period) (auto split: option.splits)

lemma sum_list_excess: "sum_list (map (\<lambda>x. x - T) xs) = sum_list xs - T * real (length xs)"
  by (induction xs) (simp_all add: algebra_simps)

text \<open>
  C9. Over one period with threshold \<open>T\<close>, the values \<open>T + 1\<close>, \<open>T + 2\<close>, \<open>T - 1\<close> give
  3. In general, for a period without NaN: the values that are not strictly above the
  threshold are excluded, the result being that of the period without them; when every
  value is strictly above the threshold the result is the sum of the excesses, the sum
  of the values minus \<open>T\<close> for each of them; a value equal to the threshold is excluded
  (\<open>>\<close> is strict). A period that holds a NaN gives NaN.
\<close>

theorem growing_degree_days_rule:
  "growing_degree_days T [Some (T + 1), Some (T + 2), Some (T - 1)] = Some 3 \<and>
   growing_degree_days T (map Some xs) = growing_degree_days T (map Some (filter (\<lambda>x. T < x) xs)) \<and>
   ((\<forall>x\<in>set xs. T < x) \<longrightarrow>
      growing_degree_days T (map Some xs) = Some (sum_list xs - T * real (length xs))) \<and>
   growing_degree_days T (map Some (xs @ [T] @ ys)) = growing_degree_days T (map Some (xs @ ys)) \<and>
   (None \<in> set period \<longrightarrow> growing_degree_days T period = None)"
proof (intro conjI impI)
  show "growing_degree_days T [Some (T + 1), Some (T + 2), Some (T - 1)] = Some 3"
    by (simp add: growing_degree_days_def)
next
  show "growing_degree_days T (map Some xs) = growing_degree_days T (map Some (filter (\<lambda>x. T < x) xs))"
    by (simp add: growing_degree_days_def those_map_Some)
next
  assume "\<forall>x\<in>set xs. T < x"
  then have "filter (\<lambda>x. T < x) xs = xs"
    by simp
  then show "growing_degree_days T (map Some xs) = Some (sum_list xs - T * real (length xs))"
    by (simp add: growing_degree_days_def those_map_Some sum_list_excess)
next
  show "growing_degree_days T (map Some (xs @ [T] @ ys)) = growing_degree_days T (map Some (xs @ ys))"
    unfolding growing_degree_days_def those_map_Some by simp
next
  assume "None \<in> set period"
  then show "growing_degree_days T period = None"
    by (simp add: growing_degree_days_def those_None)
qed

text \<open>
  Threshold 5: the values 6 and 7 give 3, with or without a value 5 between them, and a
  period with a NaN gives NaN.
\<close>

theorem growing_degree_days_rule_witness:
  "(5::real) < 6 \<and> (5::real) < 7 \<and>
   growing_degree_days 5 (map Some [6, 7]) = Some 3 \<and>
   growing_degree_days 5 (map Some ([6] @ [5] @ [7])) = Some 3 \<and>
   None \<in> set [Some (6::real), None] \<and>
   growing_degree_days 5 [Some 6, None] = None"
proof -
  have a: "\<forall>x\<in>set [6, 7 :: real]. 5 < x" by simp
  have n: "None \<in> set [Some (6::real), None]" by simp
  have r: "growing_degree_days 5 (map Some [6, 7]) = Some 3"
    using growing_degree_days_rule [of 5 "[6, 7]" "[]" "[]"] a by simp
  have s: "growing_degree_days 5 (map Some ([6] @ [5] @ [7])) = Some 3"
    using growing_degree_days_rule [of 5 "[6]" "[7]" "[]"] r by simp
  have m: "growing_degree_days 5 [Some 6, None] = None"
    using growing_degree_days_rule [of 5 "[]" "[]" "[Some 6, None]"] n by blast
  show ?thesis using r s n m by simp
qed

section \<open>The keyword arguments that \<open>format\<close> delegates\<close>

text \<open>
  Dictionaries as maps: \<open>update\<close> overrides from left to right, so the last binding of
  a name wins.
\<close>

lemma written_translatable:
  "startswith val ''{'' \<Longrightarrow> trs (slice_1_m1 val) = Some vals \<Longrightarrow>
   written mods trs (key, PStr val) = dict_comp key mods vals"
  by (simp add: written.simps)

lemma written_untranslatable: "\<not> translatable trs v \<Longrightarrow> written mods trs (key, v) = []"
  by (cases v) (auto simp: written.simps translatable_def)

lemma fold_update_map_of:
  "map_of (fold (\<lambda>x. AList.update (f x) (g x)) xs kw) = map_of kw ++ map_of (rev (map (\<lambda>x. (f x, g x)) xs))"
proof (induction xs arbitrary: kw)
  case Nil
  show ?case by simp
next
  case (Cons x xs)
  let ?M = "map_of (rev (map (\<lambda>x. (f x, g x)) xs))"
  have "map_of (fold (\<lambda>x. AList.update (f x) (g x)) (x # xs) kw)
      = map_of (AList.update (f x) (g x) kw) ++ ?M"
    using Cons [of "AList.update (f x) (g x) kw"] by simp
  also have "\<dots> = (map_of kw)(f x \<mapsto> g x) ++ ?M"
    by (simp only: update_conv')
  also have "\<dots> = map_of kw ++ ([f x \<mapsto> g x] ++ ?M)"
    by (auto simp: map_add_def fun_eq_iff split: option.splits)
  also have "[f x \<mapsto> g x] ++ ?M = map_of (rev (map (\<lambda>x. (f x, g x)) (x # xs)))"
    by simp
  finally show ?case .
qed

lemma dict_update_map_of: "map_of (dict_update kw d) = map_of kw ++ map_of (rev d)"
  using fold_update_map_of [of fst snd d kw]
  by (simp add: dict_update_def case_prod_unfold)

lemma dict_comp_map_of:
  "map_of (dict_comp key mods vals) = map_of (rev (map (\<lambda>x. (key @ fst x, PStr (snd x))) (zip mods vals)))"
  using fold_update_map_of [of "\<lambda>x. key @ fst x" "\<lambda>x. PStr (snd x)" "zip mods vals" "[]"]
  by (simp add: dict_comp_def case_prod_unfold)

lemma fold_update_keys:
  "fst ` set (fold (\<lambda>x. AList.update (f x) (g x)) xs kw) = fst ` set kw \<union> f ` set xs"
  by (induction xs arbitrary: kw) (auto simp: dom_update)

lemma fold_update_distinct:
  "distinct (map fst kw) \<Longrightarrow> distinct (map fst (fold (\<lambda>x. AList.update (f x) (g x)) xs kw))"
  by (induction xs arbitrary: kw) (auto simp: distinct_update)

lemma dict_comp_keys:
  "fst ` set (dict_comp key mods vals) = (\<lambda>m. key @ m) ` set (take (length vals) mods)"
proof -
  have "fst ` set (zip mods vals) = set (take (length vals) mods)"
    by (metis list.set_map map_fst_zip_take min.commute take_take take_all order_refl length_take)
  then show ?thesis
    using fold_update_keys [of "\<lambda>x. key @ fst x" "\<lambda>x. PStr (snd x)" "zip mods vals" "[]"]
    by (simp add: dict_comp_def case_prod_unfold image_image [symmetric])
qed

lemma dict_comp_distinct: "distinct (map fst (dict_comp key mods vals))"
  using fold_update_distinct [of "[]" "\<lambda>x. key @ fst x" "\<lambda>x. PStr (snd x)" "zip mods vals"]
  by (simp add: dict_comp_def case_prod_unfold)

lemma map_of_rev_last:
  "i < length xs \<Longrightarrow> fst (xs ! i) = k \<Longrightarrow> (\<forall>j. i < j \<and> j < length xs \<longrightarrow> fst (xs ! j) \<noteq> k)
     \<Longrightarrow> map_of (rev xs) k = Some (snd (xs ! i))"
proof (induction xs rule: rev_induct)
  case Nil
  then show ?case by simp
next
  case (snoc x xs)
  show ?case
  proof (cases "i < length xs")
    case True
    with snoc.prems have "fst x \<noteq> k"
      by (metis length_append_singleton lessI nth_append_length)
    moreover have "map_of (rev xs) k = Some (snd (xs ! i))"
      using snoc True by (simp add: nth_append) (metis less_SucI)
    ultimately show ?thesis using True
      by (cases x) (simp add: nth_append)
  next
    case False
    with snoc.prems have "i = length xs" by simp
    with snoc.prems show ?thesis by (cases x) auto
  qed
qed

lemma dict_comp_binds:
  assumes "i < length mods" "i < length vals"
      and "\<forall>j. i < j \<and> j < length mods \<and> j < length vals \<longrightarrow> mods ! j \<noteq> mods ! i"
  shows "map_of (dict_comp key mods vals) (key @ mods ! i) = Some (PStr (vals ! i))"
proof -
  let ?xs = "map (\<lambda>x. (key @ fst x, PStr (snd x))) (zip mods vals)"
  have "map_of (rev ?xs) (key @ mods ! i) = Some (snd (?xs ! i))"
    using assms by (intro map_of_rev_last) auto
  then show ?thesis using assms by (simp add: dict_comp_map_of)
qed

lemma translate_kwarg_written:
  "translate_kwarg mods trs item kw = dict_update kw (written mods trs item)"
  by (cases "(mods, trs, item)" rule: written.cases)
    (auto simp: written.simps translate_kwarg_def dict_update_def split: option.splits)

lemma written_distinct: "distinct (map fst (written mods trs item))"
  by (cases "(mods, trs, item)" rule: written.cases)
    (auto simp: written.simps dict_comp_distinct split: option.splits)

lemma translate_kwarg_map_of:
  "map_of (translate_kwarg mods trs item kw) = map_of kw ++ map_of (written mods trs item)"
proof -
  have "map_of (rev (written mods trs item)) = map_of (written mods trs item)"
    using written_distinct [of mods trs item]
    by (metis distinct_rev map_of_inject_set rev_map set_rev distinct_map)
  then show ?thesis by (simp add: translate_kwarg_written dict_update_map_of)
qed

lemma fold_translate_untouched:
  "\<forall>item\<in>set items. name \<notin> fst ` set (written mods trs item) \<Longrightarrow>
   map_of (fold (translate_kwarg mods trs) items kw) name = map_of kw name"
proof (induction items arbitrary: kw)
  case Nil
  show ?case by simp
next
  case (Cons a items)
  then have "map_of (written mods trs a) name = None"
    by (simp add: map_of_eq_None_iff)
  with Cons show ?case
    by (simp add: translate_kwarg_map_of map_add_def)
qed

lemma fold_translate_keys:
  "fst ` set (fold (translate_kwarg mods trs) items kw)
     = fst ` set kw \<union> (\<Union>item\<in>set items. fst ` set (written mods trs item))"
proof (induction items arbitrary: kw)
  case Nil
  show ?case by simp
next
  case (Cons a items)
  have "fst ` set (translate_kwarg mods trs a kw) = fst ` set kw \<union> fst ` set (written mods trs a)"
    using arg_cong [OF translate_kwarg_map_of [of mods trs a kw], of dom]
    by (simp add: dom_map_of_conv_image_fst Un_commute)
  with Cons show ?case by auto
qed

lemma braces_shape:
  "startswith (CHR ''{'' # token @ ''}'') ''{''" "slice_1_m1 (CHR ''{'' # token @ ''}'') = token"
  by (simp_all add: startswith_def slice_1_m1_def)

lemma fold_translate_map_of:
  "map_of (fold (translate_kwarg mods trs) (pre @ item # post) kw) name =
     (if \<forall>x\<in>set post. name \<notin> fst ` set (written mods trs x)
      then (map_of (fold (translate_kwarg mods trs) pre kw) ++ map_of (written mods trs item)) name
      else map_of (fold (translate_kwarg mods trs) (pre @ item # post) kw) name)"
  by (simp add: fold_translate_untouched translate_kwarg_map_of)

text \<open>
  C1 (as amended). Let a keyword argument have a value of the exact shape \<open>{token}\<close> with
  \<open>token\<close> a key of the translation table, and let \<open>i\<close> be below the lengths of both the
  modifiers and \<open>translations[token]\<close> (\<open>zip\<close> stops at the shorter one). The loop turn
  for that keyword updates the keyword arguments with the dictionary comprehension; the
  name \<open>keyword + modifier_i\<close> is a keyword of the delegated formatting call; the loop turn
  binds it to \<open>translations[token][i]\<close> unless a later modifier is the same string; and
  the delegated call has that binding unless the expansion of another keyword writes
  the same name. With an empty \<open>modifier_i\<close> the name is the keyword itself, whose value
  is overwritten. Nothing is said on whether the original keyword is removed.
\<close>

theorem format_expands_translatable:
  assumes "translations_tbl ts = Some trs" and "distinct (map fst kw)"
      and "(key, PStr (''{'' @ token @ ''}'')) \<in> set kw" and "trs token = Some vals"
      and "i < length (modifiers ts)" and "i < length vals"
  shows "(\<forall>kw'. translate_kwarg (modifiers ts) trs (key, PStr (''{'' @ token @ ''}'')) kw'
                 = dict_update kw' (dict_comp key (modifiers ts) vals)) \<and>
         key @ modifiers ts ! i \<in> fst ` set (format_kwargs ts kw) \<and>
         ((\<forall>j. i < j \<and> j < length (modifiers ts) \<and> j < length vals \<longrightarrow>
                modifiers ts ! j \<noteq> modifiers ts ! i) \<longrightarrow>
            (\<forall>kw'. map_of (translate_kwarg (modifiers ts) trs (key, PStr (''{'' @ token @ ''}'')) kw')
                     (key @ modifiers ts ! i) = Some (PStr (vals ! i))) \<and>
            ((\<forall>item\<in>set kw. fst item \<noteq> key \<longrightarrow>
                 key @ modifiers ts ! i \<notin> fst ` set (written (modifiers ts) trs item)) \<longrightarrow>
               map_of (format_kwargs ts kw) (key @ modifiers ts ! i) = Some (PStr (vals ! i))))"
proof -
  let ?item = "(key, PStr (''{'' @ token @ ''}''))"
  let ?mods = "modifiers ts"
  let ?name = "key @ ?mods ! i"
  have w: "written ?mods trs (key, PStr (CHR ''{'' # token @ ''}'')) = dict_comp key ?mods vals"
    using assms(4) by (simp add: written_translatable braces_shape)
  have step: "translate_kwarg ?mods trs ?item kw' = dict_update kw' (dict_comp key ?mods vals)" for kw'
    by (simp add: translate_kwarg_written w)
  have "?mods ! i \<in> set (take (length vals) ?mods)"
    using assms(5,6) by (metis in_set_conv_nth length_take min_less_iff_conj nth_take)
  then have inw: "?name \<in> fst ` set (written ?mods trs ?item)"
    by (simp add: w dict_comp_keys)
  have present: "?name \<in> fst ` set (format_kwargs ts kw)"
    using assms(1,3) inw
    by (simp add: format_kwargs_def fold_translate_keys) blast
  have bound: "map_of (translate_kwarg ?mods trs ?item kw') ?name = Some (PStr (vals ! i))"
    if "\<forall>j. i < j \<and> j < length ?mods \<and> j < length vals \<longrightarrow> ?mods ! j \<noteq> ?mods ! i" for kw'
    using dict_comp_binds [OF assms(5,6) that, of key]
    by (simp add: translate_kwarg_map_of w)
  have final: "map_of (format_kwargs ts kw) ?name = Some (PStr (vals ! i))"
    if nodup: "\<forall>j. i < j \<and> j < length ?mods \<and> j < length vals \<longrightarrow> ?mods ! j \<noteq> ?mods ! i"
    and others: "\<forall>item\<in>set kw. fst item \<noteq> key \<longrightarrow> ?name \<notin> fst ` set (written ?mods trs item)"
  proof -
    from assms(3) obtain pre post where sp: "kw = pre @ ?item # post"
      by (meson split_list)
    with assms(2) have "\<forall>x\<in>set post. fst x \<noteq> key"
      by auto
    with others sp have "\<forall>x\<in>set post. ?name \<notin> fst ` set (written ?mods trs x)"
      by (simp)
    then have "map_of (fold (translate_kwarg ?mods trs) (pre @ ?item # post) kw) ?name
        = map_of (translate_kwarg ?mods trs ?item (fold (translate_kwarg ?mods trs) pre kw)) ?name"
      by (simp add: fold_translate_untouched)
    also have "\<dots> = Some (PStr (vals ! i))"
      by (rule bound [OF nodup])
    finally show ?thesis
      using assms(1) sp
      by (simp add: format_kwargs_def)
  qed
  show ?thesis
    using step present bound final by blast
qed

text \<open>
  The French modifiers \<open>["", "_f"]\<close>: \<open>freq="{YS}"\<close> gives \<open>freq_f\<close>, and the empty
  modifier overwrites \<open>freq\<close> itself.
\<close>

theorem format_expands_translatable_witness:
  "translations_tbl french_str = Some [''YS'' \<mapsto> [''annuel'', ''annuelle'']] \<and>
   modifiers french_str = ['''', ''_f''] \<and>
   (''freq'', PStr (''{'' @ ''YS'' @ ''}'')) \<in> set [(''freq'', PStr ''{YS}'')] \<and>
   ''freq'' \<in> fst ` set (format_kwargs french_str [(''freq'', PStr ''{YS}'')]) \<and>
   ''freq_f'' \<in> fst ` set (format_kwargs french_str [(''freq'', PStr ''{YS}'')]) \<and>
   map_of (format_kwargs french_str [(''freq'', PStr ''{YS}'')]) ''freq'' = Some (PStr ''annuel'') \<and>
   map_of (format_kwargs french_str [(''freq'', PStr ''{YS}'')]) ''freq_f'' = Some (PStr ''annuelle'')"
proof -
  let ?trs = "[''YS'' \<mapsto> [''annuel'', ''annuelle'']]"
  let ?kw = "[(''freq'', PStr ''{YS}'')]"
  have a1: "translations_tbl french_str = Some ?trs"
    by (simp add: french_str_def TranslatableStr_init_def)
  have m: "modifiers french_str = ['''', ''_f'']"
    by (simp add: french_str_def TranslatableStr_init_def)
  have a2: "distinct (map fst ?kw)" by simp
  have a3: "(''freq'', PStr (''{'' @ ''YS'' @ ''}'')) \<in> set ?kw" by simp
  have a4: "?trs ''YS'' = Some [''annuel'', ''annuelle'']" by simp
  have i0: "0 < length (modifiers french_str)" "0 < length [''annuel'', ''annuelle'']"
    by (simp_all add: m)
  have i1: "1 < length (modifiers french_str)" "1 < length [''annuel'', ''annuelle'']"
    by (simp_all add: m)
  have nd0: "\<forall>j. 0 < j \<and> j < length (modifiers french_str) \<and> j < length [''annuel'', ''annuelle'']
      \<longrightarrow> modifiers french_str ! j \<noteq> modifiers french_str ! 0"
    by (auto simp: m less_Suc_eq)
  have nd1: "\<forall>j. 1 < j \<and> j < length (modifiers french_str) \<and> j < length [''annuel'', ''annuelle'']
      \<longrightarrow> modifiers french_str ! j \<noteq> modifiers french_str ! 1"
    by (auto simp: m)
  have o: "\<forall>item\<in>set ?kw. fst item \<noteq> ''freq'' \<longrightarrow>
      name \<notin> fst ` set (written (modifiers french_str) ?trs item)" for name
    by simp
  have n: "''freq'' @ modifiers french_str ! 0 = ''freq''" "''freq'' @ modifiers french_str ! 1 = ''freq_f''"
    by (simp_all add: m)
  have c0: "''freq'' \<in> fst ` set (format_kwargs french_str ?kw) \<and>
      map_of (format_kwargs french_str ?kw) ''freq'' = Some (PStr ''annuel'')"
    using format_expands_translatable [OF a1 a2 a3 a4 i0] nd0 o [of "''freq'' @ modifiers french_str ! 0"]
    unfolding n by simp
  have c1: "''freq_f'' \<in> fst ` set (format_kwargs french_str ?kw) \<and>
      map_of (format_kwargs french_str ?kw) ''freq_f'' = Some (PStr ''annuelle'')"
    using format_expands_translatable [OF a1 a2 a3 a4 i1] nd1 o [of "''freq'' @ modifiers french_str ! 1"]
    unfolding n by simp
  show ?thesis
    using a1 m c0 c1 by simp
qed

text \<open>
  C1 as stated fails: with two modifiers and a token that has one translation only
  \<open>a_m\<close> is added, not one keyword per modifier, and \<open>a\<close> is still a keyword of the
  delegated call.
\<close>

theorem format_expands_translatable_counterexample:
  "format_kwargs short_str [(''a'', PStr ''{calm}'')] = [(''a'', PStr ''{calm}''), (''a_m'', PStr ''calme'')] \<and>
   map_of (format_kwargs short_str [(''a'', PStr ''{calm}'')]) ''a_f'' = None \<and>
   map_of (format_kwargs short_str [(''a'', PStr ''{calm}'')]) ''a'' = Some (PStr ''{calm}'')"
  by (simp add: short_str_def format_defs)

text \<open>
  Two behaviours that the docstring of \<open>format\<close> contradicts ("the keyword is removed
  from the arguments", "identified by braces"): the original keyword stays, and a value
  that opens a brace without closing it is expanded.
\<close>

lemma format_keeps_original_keyword:
  "format_kwargs example_str [(''a'', PStr ''{nice}'')]
     = [(''a'', PStr ''{nice}''), (''a_m'', PStr ''beau''), (''a_f'', PStr ''belle'')] \<and>
   format (example_str\<lparr>data := ''X is {a}''\<rparr>) [] [(''a'', PStr ''{nice}'')] = Inr ''X is {nice}''"
  by (simp add: example_str_def format_defs)

lemma format_expands_unclosed_brace:
  "format_kwargs example_str [(''a'', PStr ''{nice!'')]
     = [(''a'', PStr ''{nice!''), (''a_m'', PStr ''beau''), (''a_f'', PStr ''belle'')]"
  by (simp add: example_str_def format_defs)

text \<open>
  C3 (as amended). A keyword argument whose value fails the test of \<open>format\<close> (it is
  no string, or does not start with \<open>{\<close>, or \<open>value[1:-1]\<close> is no key of the table)
  triggers no expansion, and it reaches the delegated formatting unmodified provided no
  expansion of the same call writes its name. Without a translation table every
  keyword argument is passed on as it is.
\<close>

theorem format_passes_untranslatable_through:
  assumes "distinct (map fst kw)" and "(key, val) \<in> set kw"
  shows "format ts args kw = str_format (data ts) args (format_kwargs ts kw) \<and>
         (translations_tbl ts = None \<longrightarrow> format_kwargs ts kw = kw) \<and>
         (\<forall>trs. translations_tbl ts = Some trs \<and> \<not> translatable trs val \<longrightarrow>
            (\<forall>kw'. translate_kwarg (modifiers ts) trs (key, val) kw' = kw') \<and>
            ((\<forall>item\<in>set kw. key \<notin> fst ` set (written (modifiers ts) trs item)) \<longrightarrow>
               map_of (format_kwargs ts kw) key = Some val))"
proof (intro conjI impI allI)
  show "format ts args kw = str_format (data ts) args (format_kwargs ts kw)"
    by (simp add: format_def)
next
  assume "translations_tbl ts = None"
  then show "format_kwargs ts kw = kw"
    by (simp add: format_kwargs_def)
next
  fix trs kw'
  assume "translations_tbl ts = Some trs \<and> \<not> translatable trs val"
  then show "translate_kwarg (modifiers ts) trs (key, val) kw' = kw'"
    by (auto simp: translatable_def translate_kwarg_def split: pyval.splits option.splits)
next
  fix trs
  assume a: "translations_tbl ts = Some trs \<and> \<not> translatable trs val"
    and b: "\<forall>item\<in>set kw. key \<notin> fst ` set (written (modifiers ts) trs item)"
  have "map_of (format_kwargs ts kw) key = map_of kw key"
    using a b by (simp add: format_kwargs_def fold_translate_untouched)
  with assms show "map_of (format_kwargs ts kw) key = Some val"
    by simp
qed


text \<open>
  A value without braces and a value in braces that is no key are both passed on.
\<close>

theorem format_passes_untranslatable_through_witness:
  "distinct (map fst [(''a'', PStr ''nice''), (''b'', PStr ''{evil}'')]) \<and>
   \<not> translatable [''nice'' \<mapsto> [''beau'', ''belle'']] (PStr ''nice'') \<and>
   \<not> translatable [''nice'' \<mapsto> [''beau'', ''belle'']] (PStr ''{evil}'') \<and>
   map_of (format_kwargs example_str [(''a'', PStr ''nice''), (''b'', PStr ''{evil}'')]) ''a'' = Some (PStr ''nice'') \<and>
   map_of (format_kwargs example_str [(''a'', PStr ''nice''), (''b'', PStr ''{evil}'')]) ''b'' = Some (PStr ''{evil}'') \<and>
   format_kwargs (example_str\<lparr>translations_tbl := None\<rparr>) [(''a'', PStr ''{nice}'')] = [(''a'', PStr ''{nice}'')]"
proof -
  let ?trs = "[''nice'' \<mapsto> [''beau'', ''belle'']]"
  let ?kw = "[(''a'', PStr ''nice''), (''b'', PStr ''{evil}'')]"
  have d: "distinct (map fst ?kw)" by simp
  have t: "translations_tbl example_str = Some ?trs"
    by (simp add: example_str_def TranslatableStr_init_def)
  have na: "\<not> translatable ?trs (PStr ''nice'')"
    by (simp add: translatable_def startswith_def)
  have nb: "\<not> translatable ?trs (PStr ''{evil}'')"
    by (simp add: translatable_def startswith_def slice_1_m1_def)
  have w: "\<forall>item\<in>set ?kw. name \<notin> fst ` set (written (modifiers example_str) ?trs item)" for name
    using na nb by (simp add: written_untranslatable)
  have ma: "(''a'', PStr ''nice'') \<in> set ?kw" and mb: "(''b'', PStr ''{evil}'') \<in> set ?kw"
    by simp_all
  have ca: "map_of (format_kwargs example_str ?kw) ''a'' = Some (PStr ''nice'')"
    using format_passes_untranslatable_through [OF d ma, of example_str "[]"] t na w [of "''a''"] by simp
  have cb: "map_of (format_kwargs example_str ?kw) ''b'' = Some (PStr ''{evil}'')"
    using format_passes_untranslatable_through [OF d mb, of example_str "[]"] t nb w [of "''b''"] by simp
  have d1: "distinct (map fst [(''a'', PStr ''{nice}'')])" and m1: "(''a'', PStr ''{nice}'') \<in> set [(''a'', PStr ''{nice}'')]"
    by simp_all
  have cn: "format_kwargs (example_str\<lparr>translations_tbl := None\<rparr>) [(''a'', PStr ''{nice}'')] = [(''a'', PStr ''{nice}'')]"
    using format_passes_untranslatable_through [OF d1 m1, of "example_str\<lparr>translations_tbl := None\<rparr>" "[]"]
    by simp
  show ?thesis using d na nb ca cb cn by blast
qed

text \<open>
  C3 as stated fails: \<open>a_m="plain"\<close> is not translatable, and yet the delegated call
  receives \<open>a_m="beau"\<close>, written by the expansion of \<open>a="{nice}"\<close>.
\<close>

theorem format_passes_untranslatable_through_counterexample:
  "\<not> translatable [''nice'' \<mapsto> [''beau'', ''belle'']] (PStr ''plain'') \<and>
   translations_tbl example_str = Some [''nice'' \<mapsto> [''beau'', ''belle'']] \<and>
   map_of (format_kwargs example_str [(''a'', PStr ''{nice}''), (''a_m'', PStr ''plain'')]) ''a_m''
     = Some (PStr ''beau'') \<and>
   format example_str [] [(''a'', PStr ''{nice}''), (''a_m'', PStr ''plain'')] = Inr ''X is beau''"
  by (simp add: example_str_def translatable_def format_defs)

section \<open>The scoped override \<open>metadata_locale\<close>\<close>

lemma check_locales_files:
  "files w' = files w \<Longrightarrow> check_locales pkg w' ls = check_locales pkg w ls"
  by (induction ls) (auto simp: unavailable_def split: locale_arg.splits locale_src.splits sum.splits)

lemma gbl_fr: "get_best_locale example_pkg ''fr'' = Inr (Some ''fr'')"
  by (simp add: get_best_locale_def list_locales_example)

lemma gbl_enGB: "get_best_locale example_pkg ''en-GB'' = Inr (Some ''en-US'')"
  by (simp add: get_best_locale_def list_locales_example split0_def)

text \<open>
  C5 (as amended). For a valid override list, and when every entry of the pre-entry
  registry passes the validation of \<open>set_locales\<close> in the world that the block leaves,
  the \<open>with\<close> statement yields the block's outcome \<open>r\<close>, a value or a propagated
  exception alike, and \<open>LOCALES\<close> is again what it was on entry. (\<open>__exit__\<close> restores
  through \<open>set_locales\<close>, which validates.)
\<close>

theorem metadata_locale_restores:
  assumes "check_locales pkg w locales = None"
      and "body (w\<lparr>LOCALES := locales\<rparr>) = (r, w2)"
      and "check_locales pkg w2 (LOCALES w) = None"
  shows "with_metadata_locale pkg locales body w = (r, w2\<lparr>LOCALES := LOCALES w\<rparr>)"
  using assms
  by (simp add: with_metadata_locale_def metadata_locale_enter_def metadata_locale_exit_def
      set_locales_def)

text \<open>
  A block that returns after clearing \<open>LOCALES\<close>, and a block that raises.
\<close>

theorem metadata_locale_restores_witness:
  "check_locales example_pkg example_world [Tag ''en-GB''] = None \<and>
   check_locales example_pkg (example_world\<lparr>LOCALES := []\<rparr>) (LOCALES example_world) = None \<and>
   with_metadata_locale example_pkg [Tag ''en-GB''] (\<lambda>w. (Inr (), w\<lparr>LOCALES := []\<rparr>)) example_world
     = (Inr (), example_world) \<and>
   with_metadata_locale example_pkg [Tag ''en-GB''] (\<lambda>w. (Inl IndexError :: py_error + unit, w)) example_world
     = (Inl IndexError, example_world)"
proof -
  have a: "check_locales example_pkg example_world [Tag ''en-GB''] = None"
    by (simp add: unavailable_def gbl_enGB)
  have c: "check_locales example_pkg w (LOCALES example_world) = None" for w
    by (simp add: example_world_def unavailable_def gbl_fr)
  have b1: "(\<lambda>w. (Inr (), w\<lparr>LOCALES := []\<rparr>)) (example_world\<lparr>LOCALES := [Tag ''en-GB'']\<rparr>)
      = (Inr (), example_world\<lparr>LOCALES := []\<rparr>)"
    by simp
  have b2: "(\<lambda>w. (Inl IndexError :: py_error + unit, w)) (example_world\<lparr>LOCALES := [Tag ''en-GB'']\<rparr>)
      = (Inl IndexError, example_world\<lparr>LOCALES := [Tag ''en-GB'']\<rparr>)"
    by simp
  show ?thesis
    using a c [of "example_world\<lparr>LOCALES := []\<rparr>"]
      metadata_locale_restores [where body = "\<lambda>w. (Inr (), w\<lparr>LOCALES := []\<rparr>)", OF a b1 c]
      metadata_locale_restores [where body = "\<lambda>w. (Inl IndexError :: py_error + unit, w)", OF a b2 c]
    by simp
qed

text \<open>
  C5 as stated fails: when the pre-entry registry holds an entry that does not pass the
  validation on exit (a tag that does not resolve; a path whose file the block removed),
  \<open>__exit__\<close> raises and \<open>LOCALES\<close> keeps the override.
\<close>

theorem metadata_locale_restores_counterexample:
  "check_locales example_pkg stale_world [Tag ''fr''] = None \<and>
   with_metadata_locale example_pkg [Tag ''fr''] (\<lambda>w. (Inr (), w)) stale_world
     = (Inl (UnavailableLocaleError (Some (Tag ''de''))), stale_world\<lparr>LOCALES := [Tag ''fr'']\<rparr>) \<and>
   LOCALES stale_world = [Tag ''de''] \<and>
   set_locales example_pkg [TagPair ''fr'' (Path ''my_fr.json'')] (file_world\<lparr>LOCALES := []\<rparr>)
     = (Inr (), file_world) \<and>
   check_locales example_pkg file_world [Tag ''fr''] = None \<and>
   with_metadata_locale example_pkg [Tag ''fr''] (\<lambda>w. (Inr (), w\<lparr>files := Map.empty\<rparr>)) file_world
     = (Inl (UnavailableLocaleError (Some (TagPair ''fr'' (Path ''my_fr.json'')))),
        \<lparr>LOCALES = [Tag ''fr''], files = Map.empty\<rparr>) \<and>
   LOCALES file_world = [TagPair ''fr'' (Path ''my_fr.json'')]"
  by (simp add: with_metadata_locale_def metadata_locale_enter_def metadata_locale_exit_def
      set_locales_def unavailable_def gbl_fr get_best_locale_de stale_world_def file_world_def)


section \<open>The translatable strings that \<open>get_local_attrs\<close> builds\<close>

lemma update_set: "(k', v') \<in> set (AList.update k v al) \<Longrightarrow> (k', v') = (k, v) \<or> (k', v') \<in> set al"
  by (induction al) (auto split: if_splits)

lemma translate_attrs_built:
  assumes "translate_attrs ind names fill_missing loc_name loc_dict local ns attrs0 = Inr attrs"
      and "(key, ts) \<in> set attrs"
  shows "(key, ts) \<in> set attrs0 \<or> built_from loc_dict ts"
  using assms
proof (induction ns arbitrary: attrs0)
  case Nil
  then show ?case by simp
next
  case (Cons name ns)
  show ?case
  proof (cases "(case names of None \<Rightarrow> True | Some ns \<Rightarrow> name \<in> set ns) \<and> (fill_missing \<or> local name \<noteq> None)")
    case False
    with Cons.prems have "translate_attrs ind names fill_missing loc_name loc_dict local ns attrs0 = Inr attrs"
      by auto
    from Cons.IH [OF this Cons.prems(2)] show ?thesis .
  next
    case True
    with Cons.prems(1) obtain am dflt where am: "attrs_mapping loc_dict = Some am"
      and d: "ind_getattr ind name = Some dflt"
      by (auto split: option.splits)
    let ?ts = "TranslatableStr_init (case local name of None \<Rightarrow> dflt | Some t \<Rightarrow> t)
                 (Some (am(''modifiers'' := None))) (case am ''modifiers'' of None \<Rightarrow> [[]] | Some m \<Rightarrow> m)"
    have b: "built_from loc_dict ?ts"
      unfolding built_from_def
      by (rule exI [of _ am]) (simp add: am TranslatableStr_init_def)
    from True Cons.prems(1) am d
    have "translate_attrs ind names fill_missing loc_name loc_dict local ns
            (AList.update (name @ loc_name) ?ts attrs0) = Inr attrs"
      by (simp add: Let_def)
    from Cons.IH [OF this Cons.prems(2)]
    show ?thesis
    proof
      assume "(key, ts) \<in> set (AList.update (name @ loc_name) ?ts attrs0)"
      then have "(key, ts) = (name @ loc_name, ?ts) \<or> (key, ts) \<in> set attrs0"
        by (rule update_set)
      with b show ?thesis by blast
    next
      assume "built_from loc_dict ts"
      then show ?thesis ..
    qed
  qed
qed

lemma locales_loop_built:
  assumes "locales_loop pkg w ind names fill_missing append_locale_name ls attrs0 warned = (Inr attrs, warned')"
      and "(key, ts) \<in> set attrs"
  shows "(key, ts) \<in> set attrs0 \<or>
         (\<exists>l\<in>set ls. \<exists>loc_name loc_dict.
             get_local_dict pkg w l = Inr (loc_name, loc_dict) \<and> built_from loc_dict ts)"
  using assms
proof (induction ls arbitrary: attrs0 warned)
  case Nil
  then show ?case by simp
next
  case (Cons l ls)
  from Cons.prems(1) obtain loc_name loc_dict ind_name where
    g: "get_local_dict pkg w l = Inr (loc_name, loc_dict)" and n: "ind_name_of ind = Inr ind_name"
    by (auto split: sum.splits)
  show ?case
  proof (cases "entries loc_dict ind_name")
    case None
    with Cons.prems(1) g n
    have "locales_loop pkg w ind names fill_missing append_locale_name ls attrs0
            (warned @ [NoAttributesFound ind_name l]) = (Inr attrs, warned')"
      by (simp add: Let_def)
    from Cons.IH [OF this Cons.prems(2)] show ?thesis by auto
  next
    case (Some local)
    with Cons.prems(1) g n obtain attrs1 where
      t: "translate_attrs ind names fill_missing (if append_locale_name then ''_'' @ loc_name else [])
            loc_dict local TRANSLATABLE_ATTRS attrs0 = Inr attrs1"
      and r: "locales_loop pkg w ind names fill_missing append_locale_name ls attrs1 warned = (Inr attrs, warned')"
      by (auto simp: Let_def split: sum.splits)
    from Cons.IH [OF r Cons.prems(2)] show ?thesis
    proof
      assume "(key, ts) \<in> set attrs1"
      from translate_attrs_built [OF t this] g show ?thesis by auto
    next
      assume "\<exists>l\<in>set ls. \<exists>loc_name loc_dict.
             get_local_dict pkg w l = Inr (loc_name, loc_dict) \<and> built_from loc_dict ts"
      then show ?thesis by auto
    qed
  qed
qed

lemma TranslatableStr_invariant_aligned:
  assumes "translations_tbl ts = Some (am(''modifiers'' := None))"
      and "modifiers ts = (case am ''modifiers'' of None \<Rightarrow> [[]] | Some m \<Rightarrow> m)"
  shows "TranslatableStr_invariant ts \<longleftrightarrow> attrs_mapping_aligned am"
  using assms unfolding TranslatableStr_invariant_def attrs_mapping_aligned_def
  by (auto split: if_splits)

text \<open>
  C8 (as amended). Every translatable string that \<open>get_local_attrs\<close> returns carries,
  unchecked, the data of one of the requested locales: its modifiers are the
  \<open>"modifiers"\<close> entry of that locale's \<open>"attrs_mapping"\<close> (\<open>[""]\<close> when absent) and its
  table is the rest of \<open>"attrs_mapping"\<close>. So the TranslatableStr_invariant
  \<open>len(modifiers) == len(translations[k])\<close> for every key \<open>k\<close> holds for the string
  exactly when it holds in that locale data.
\<close>

theorem get_local_attrs_carries_locale_data:
  assumes "get_local_attrs pkg w ind locales names fill_missing append_locale_name = (Inr attrs, warned)"
      and "(key, ts) \<in> set attrs"
  shows "\<exists>l loc_name loc_dict am.
           l \<in> set (if locales = [] then LOCALES w else locales) \<and>
           get_local_dict pkg w l = Inr (loc_name, loc_dict) \<and>
           attrs_mapping loc_dict = Some am \<and>
           translations_tbl ts = Some (am(''modifiers'' := None)) \<and>
           modifiers ts = (case am ''modifiers'' of None \<Rightarrow> [[]] | Some m \<Rightarrow> m) \<and>
           (TranslatableStr_invariant ts \<longleftrightarrow> attrs_mapping_aligned am)"
proof -
  let ?ls = "if locales = [] then LOCALES w else locales"
  from assms(1) have "locales_loop pkg w ind names fill_missing append_locale_name ?ls [] [] = (Inr attrs, warned)"
    by (auto simp: get_local_attrs_def Let_def split: if_splits)
  from locales_loop_built [OF this assms(2)]
  obtain l loc_name loc_dict where l: "l \<in> set ?ls" "get_local_dict pkg w l = Inr (loc_name, loc_dict)"
    and "built_from loc_dict ts"
    by auto
  then obtain am where am: "attrs_mapping loc_dict = Some am"
    "translations_tbl ts = Some (am(''modifiers'' := None))"
    "modifiers ts = (case am ''modifiers'' of None \<Rightarrow> [[]] | Some m \<Rightarrow> m)"
    unfolding built_from_def by blast
  from am(2,3) have "TranslatableStr_invariant ts \<longleftrightarrow> attrs_mapping_aligned am"
    by (rule TranslatableStr_invariant_aligned)
  with l am show ?thesis by blast
qed

lemma ind_name_example: "ind_name_of example_indicator = Inr ''atmos.dtrvar''"
  by (simp add: ind_name_of_def example_indicator_def)

lemma getattr_example:
  "ind_getattr example_indicator ''long_name'' = Some ''Mean diurnal temperature range variability''"
  by (simp add: example_indicator_def)

lemma get_local_attrs_short:
  "get_local_attrs example_pkg example_world example_indicator [TagPair ''fr'' (Dict short_dict)]
     (Some [''long_name'']) True True = (Inr [(''long_name_fr'', short_ts)], [])"
  by (simp add: get_local_attrs_def get_local_dict_def ind_name_example short_dict_def
      TRANSLATABLE_ATTRS_def getattr_example short_ts_def)

lemma get_local_attrs_french:
  "get_local_attrs example_pkg example_world example_indicator [TagPair ''fr'' (Dict french_dict)]
     (Some [''long_name'']) True True = (Inr [(''long_name_fr'', french_ts)], [])"
  by (simp add: get_local_attrs_def get_local_dict_def ind_name_example french_dict_def
      TRANSLATABLE_ATTRS_def getattr_example french_ts_def)

text \<open>
  Aligned locale data give a string that satisfies the TranslatableStr_invariant.
\<close>

theorem get_local_attrs_carries_locale_data_witness:
  "get_local_attrs example_pkg example_world example_indicator [TagPair ''fr'' (Dict french_dict)]
     (Some [''long_name'']) True True = (Inr [(''long_name_fr'', french_ts)], []) \<and>
   (''long_name_fr'', french_ts) \<in> set [(''long_name_fr'', french_ts)] \<and>
   get_local_dict example_pkg example_world (TagPair ''fr'' (Dict french_dict)) = Inr (''fr'', french_dict) \<and>
   attrs_mapping_aligned [''modifiers'' \<mapsto> ['''', ''_f''], ''YS'' \<mapsto> [''annuel'', ''annuelle'']] \<and>
   TranslatableStr_invariant french_ts"
proof -
  let ?am = "[''modifiers'' \<mapsto> ['''', ''_f''], ''YS'' \<mapsto> [''annuel'', ''annuelle'']]"
  have mem: "(''long_name_fr'', french_ts) \<in> set [(''long_name_fr'', french_ts)]" by simp
  have g: "get_local_dict example_pkg example_world (TagPair ''fr'' (Dict french_dict)) = Inr (''fr'', french_dict)"
    by (simp add: get_local_dict_def)
  have al: "attrs_mapping_aligned ?am"
    by (auto simp: attrs_mapping_aligned_def split: if_splits)
  from get_local_attrs_carries_locale_data [OF get_local_attrs_french mem]
  obtain l loc_name loc_dict am where
    l: "l \<in> set [TagPair ''fr'' (Dict french_dict)]"
    and d: "get_local_dict example_pkg example_world l = Inr (loc_name, loc_dict)"
    and a: "attrs_mapping loc_dict = Some am"
    and i: "TranslatableStr_invariant french_ts \<longleftrightarrow> attrs_mapping_aligned am"
    by auto
  from l d g have "loc_dict = french_dict" by simp
  with a have "am = ?am" by (simp add: french_dict_def)
  with i al have "TranslatableStr_invariant french_ts" by simp
  with get_local_attrs_french mem g al show ?thesis by blast
qed


text \<open>
  C8 as stated fails: a locale dictionary with two modifiers and one translation of
  \<open>YS\<close> gives a translatable string with two modifiers and one translation.
\<close>

theorem get_local_attrs_carries_locale_data_counterexample:
  "get_local_attrs example_pkg example_world example_indicator [TagPair ''fr'' (Dict short_dict)]
     (Some [''long_name'']) True True = (Inr [(''long_name_fr'', short_ts)], []) \<and>
   modifiers short_ts = ['''', ''_f''] \<and>
   (\<exists>trs. translations_tbl short_ts = Some trs \<and> trs ''YS'' = Some [''annuel'']) \<and>
   \<not> TranslatableStr_invariant short_ts"
proof -
  have m: "modifiers short_ts = ['''', ''_f'']"
    by (simp add: short_ts_def TranslatableStr_init_def)
  have t: "\<exists>trs. translations_tbl short_ts = Some trs \<and> trs ''YS'' = Some [''annuel'']"
    by (simp add: short_ts_def TranslatableStr_init_def)
  then obtain trs where "translations_tbl short_ts = Some trs \<and> trs ''YS'' = Some [''annuel'']" ..
  with m have "\<not> TranslatableStr_invariant short_ts"
    unfolding TranslatableStr_invariant_def by force
  with m t get_local_attrs_short show ?thesis by blast
qed

end
